theory Spec2Isabelle
  imports Main "HOL-Library.Word"
begin

unbundle bit_operations_syntax

section \<open>Proof-of-stake kernel validation (pos.cpp)\<close>

text \<open>
  A shallow embedding of \<^verbatim>\<open>src/pos.cpp\<close>. Every function of the file is one
  definition of the same name. What the file includes from elsewhere (the hash writer,
  the compact-target decoder, the consensus parameters, the script engine, the ancestor
  lookup of the block index) is not among the sources and is taken from an environment
  record, so that every theorem holds for any implementation of these collaborators.
\<close>

subsection \<open>Data\<close>

type_synonym uint256 = "256 word"
type_synonym arith_uint256 = "256 word"
type_synonym uint32_t = "32 word"
type_synonym int64_t = "64 word"
type_synonym Amount = "64 word"
type_synonym CScript = "8 word list"

text \<open>\<^verbatim>\<open>UintToArith256\<close> reads the 32 bytes of a \<^verbatim>\<open>uint256\<close> as one unsigned
  number; both types are the same 256-bit word here.\<close>

definition UintToArith256 :: "uint256 \<Rightarrow> arith_uint256" where
  "UintToArith256 h = h"

text \<open>\<^verbatim>\<open>arith_uint256(uint64_t)\<close>: the constructor takes an unsigned 64-bit value, so
  the \<^verbatim>\<open>int64_t\<close> amount is converted bit for bit and then zero-extended.\<close>

definition arith_uint256_of :: "int64_t \<Rightarrow> arith_uint256" where
  "arith_uint256_of v = ucast v"

datatype COutPoint = COutPoint (GetHash: uint256) (GetN: uint32_t)

datatype CTxOut = CTxOut (nValue: Amount) (scriptPubKey: CScript)

datatype CTxIn = CTxIn (txin_prevout: COutPoint) (scriptSig: CScript)

datatype CTransaction = CTransaction (vin: "CTxIn list") (vout: "CTxOut list")

text \<open>The fields of \<^verbatim>\<open>Coin\<close> that pos.cpp reads: \<^verbatim>\<open>out\<close>, \<^verbatim>\<open>nHeight\<close>, \<^verbatim>\<open>nTime\<close>.
  Heights are mathematical integers: the C++ computes on \<^verbatim>\<open>int\<close>, where overflow is
  undefined, and block heights stay far inside its range.\<close>

datatype Coin = Coin (out: CTxOut) (coin_nHeight: int) (coin_nTime: uint32_t)

text \<open>The fields of \<^verbatim>\<open>CBlockIndex\<close> that pos.cpp reads. A null \<^verbatim>\<open>pprev\<close> is
  \<open>None\<close>.\<close>

datatype CBlockIndex =
  CBlockIndex (pprev: "CBlockIndex option") (nHeight: int) (block_nTime: uint32_t)
    (nStakeModifier: uint256) (nFile: int) (nDataPos: uint32_t)

datatype CDiskTxPos = CDiskTxPos (tx_nFile: int) (tx_nPos: uint32_t)

datatype CStakeCache = CStakeCache (blockFromTime: uint32_t) (amount: Amount)

type_synonym StakeCacheMap = "COutPoint \<rightharpoonup> CStakeCache"

subsection \<open>The hash writer\<close>

text \<open>\<^verbatim>\<open>CHashWriter ss(SER_GETHASH, 0)\<close> collects what is written to it with
  \<^verbatim>\<open><<\<close>, in order, and \<^verbatim>\<open>GetHash()\<close> hashes the serialization of that sequence.
  The writer is the sequence of items written so far; serialization and digest together
  are the environment's \<open>Hash\<close>.\<close>

datatype ser_item = U256 uint256 | U32 uint32_t

type_synonym CHashWriter = "ser_item list"

definition CHashWriter_new :: CHashWriter where
  "CHashWriter_new = []"

definition write_item :: "CHashWriter \<Rightarrow> ser_item \<Rightarrow> CHashWriter" where
  "write_item ss x = ss @ [x]"

subsection \<open>Observable effects\<close>

text \<open>Besides its return value a function of pos.cpp logs through \<^verbatim>\<open>error(...)\<close>
  (which returns false) and \<^verbatim>\<open>LogPrintf\<close>, flags the validation state through
  \<^verbatim>\<open>state.DoS(level, ...)\<close>, and computes kernel hashes. Each function returns the
  sequence of these events next to its result. \<open>LogError\<close> carries the format string of
  the call.\<close>

datatype event =
    LogError string
  | LogDebug
  | HashComputed CHashWriter
  | StateDoS int

subsection \<open>The UTXO view\<close>

text \<open>Modelled from the spec: \<^verbatim>\<open>CCoinsView\<close> and \<^verbatim>\<open>CCoinsViewCache\<close> (coins.h) are not
  among the sources. The spec gives the interface \<open>get_coin(outpoint) -> Option<Coin>\<close>
  and calls the view that the cached \<^verbatim>\<open>CheckKernel\<close> builds a throwaway empty UTXO view:
  a view is a partial map from outpoints to coins, a default-constructed \<^verbatim>\<open>CCoinsView\<close>
  holds no coin, and a fresh \<^verbatim>\<open>CCoinsViewCache\<close> over a backing view finds exactly the
  coins of that view.\<close>

type_synonym CCoinsView = "COutPoint \<rightharpoonup> Coin"

definition CCoinsView_default :: CCoinsView where
  "CCoinsView_default = Map.empty"

definition CCoinsViewCache :: "CCoinsView \<Rightarrow> CCoinsView" where
  "CCoinsViewCache base = base"

definition GetCoin :: "CCoinsView \<Rightarrow> COutPoint \<Rightarrow> Coin option" where
  "GetCoin view outpoint = view outpoint"

subsection \<open>The collaborators\<close>

text \<open>
  \<^item> \<open>Hash\<close>: \<^verbatim>\<open>CHashWriter::GetHash\<close> on the items written.
  \<^item> \<open>SetCompact\<close>: \<^verbatim>\<open>arith_uint256::SetCompact\<close>, returning the target and the flags
    \<^verbatim>\<open>fNegative\<close> and \<^verbatim>\<open>fOverflow\<close>.
  \<^item> \<open>IsProtocolV2\<close>, \<open>nStakeTimestampMask\<close>, \<open>nStakeMinConfirmations\<close>: the fields
    of \<^verbatim>\<open>Params().GetConsensus()\<close> that are read; the mask as the 64-bit value it is
    converted to for \<^verbatim>\<open>nTimeTx & mask\<close>.
  \<^item> \<open>GetAncestor\<close>: \<^verbatim>\<open>CBlockIndex::GetAncestor\<close>, null as \<open>None\<close>.
  \<^item> \<open>IsCoinStake\<close>: \<^verbatim>\<open>CTransaction::IsCoinStake\<close>.
  \<^item> \<open>VerifyScript\<close>: the script engine run with \<^verbatim>\<open>SCRIPT_VERIFY_NONE\<close> and a
    \<^verbatim>\<open>TransactionSignatureChecker(&tx, nIn, amount)\<close>.
  \<^item> \<open>IsSpent\<close>: \<^verbatim>\<open>Coin::IsSpent\<close>.
  \<^item> \<open>fDebug\<close>: \<^verbatim>\<open>gArgs.IsArgSet("-debug")\<close>.
\<close>

record env =
  Hash :: "CHashWriter \<Rightarrow> uint256"
  SetCompact :: "uint32_t \<Rightarrow> arith_uint256 \<times> bool \<times> bool"
  IsProtocolV2 :: "int64_t \<Rightarrow> bool"
  nStakeTimestampMask :: int64_t
  nStakeMinConfirmations :: int
  GetAncestor :: "CBlockIndex \<Rightarrow> int \<Rightarrow> CBlockIndex option"
  IsCoinStake :: "CTransaction \<Rightarrow> bool"
  VerifyScript :: "CScript \<Rightarrow> CScript \<Rightarrow> CTransaction \<Rightarrow> nat \<Rightarrow> Amount \<Rightarrow> bool"
  IsSpent :: "Coin \<Rightarrow> bool"
  fDebug :: bool

subsection \<open>ComputeStakeModifier (lines 29-36)\<close>

definition ComputeStakeModifier :: "env \<Rightarrow> CBlockIndex option \<Rightarrow> uint256 \<Rightarrow> uint256" where
  "ComputeStakeModifier e pindexPrev kernelHash =
     (case pindexPrev of
        None \<Rightarrow> 0
      | Some p \<Rightarrow>
          (let ss = CHashWriter_new;
               ss = write_item ss (U256 kernelHash);
               ss = write_item ss (U256 (nStakeModifier p))
           in Hash e ss))"

subsection \<open>CheckCoinStakeTimestamp, CheckStakeBlockTimestamp (lines 39-50)\<close>

definition CheckCoinStakeTimestamp :: "env \<Rightarrow> int64_t \<Rightarrow> int64_t \<Rightarrow> bool" where
  "CheckCoinStakeTimestamp e nTimeBlock nTimeTx =
     (if IsProtocolV2 e nTimeBlock
      then nTimeBlock = nTimeTx \<and> (nTimeTx AND nStakeTimestampMask e) = 0
      else nTimeBlock = nTimeTx)"

definition CheckStakeBlockTimestamp :: "env \<Rightarrow> int64_t \<Rightarrow> bool" where
  "CheckStakeBlockTimestamp e nTimeBlock = CheckCoinStakeTimestamp e nTimeBlock nTimeBlock"

subsection \<open>CheckStakeKernelHash (lines 71-114)\<close>

text \<open>The writer of lines 97-99: modifier, coin creation time, outpoint hash, outpoint
  index, candidate time.\<close>

definition kernel_stream ::
  "CBlockIndex \<Rightarrow> uint32_t \<Rightarrow> COutPoint \<Rightarrow> uint32_t \<Rightarrow> CHashWriter" where
  "kernel_stream pindexPrev nBlockFromTime prevout nTime =
     (let modifier = nStakeModifier pindexPrev;
          ss = CHashWriter_new;
          ss = write_item ss (U256 modifier);
          ss = write_item ss (U32 nBlockFromTime);
          ss = write_item ss (U256 (GetHash prevout));
          ss = write_item ss (U32 (GetN prevout));
          ss = write_item ss (U32 nTime)
      in ss)"

definition CheckStakeKernelHash ::
  "env \<Rightarrow> CBlockIndex \<Rightarrow> uint32_t \<Rightarrow> uint32_t \<Rightarrow> Amount \<Rightarrow> COutPoint \<Rightarrow> uint32_t
     \<Rightarrow> bool \<times> event list" where
  "CheckStakeKernelHash e pindexPrev nBits nBlockFromTime prevOutAmount prevout nTime =
     (if nTime < nBlockFromTime then (False, [LogError ''%s: nTime violation''])
      else
        (case SetCompact e nBits of (bnTarget, fNegative, fOverflow) \<Rightarrow>
           if fNegative \<or> fOverflow \<or> bnTarget = 0
           then (False, [LogError ''%s: SetCompact failed''])
           else
             (let nValueIn = prevOutAmount in
              if nValueIn = 0 then (False, [LogError ''%s: nValueIn == 0''])
              else
                (let bnWeight = arith_uint256_of nValueIn;
                     bnTarget = bnTarget * bnWeight;
                     ss = kernel_stream pindexPrev nBlockFromTime prevout nTime;
                     hashProofOfStake = Hash e ss
                 in if UintToArith256 hashProofOfStake > bnTarget
                    then (False, [HashComputed ss])
                    else (True, HashComputed ss # (if fDebug e then [LogDebug] else []))))))"

subsection \<open>IsConfirmedInNPrevBlocks (lines 116-125)\<close>

text \<open>The \<^verbatim>\<open>for\<close> loop: \<open>pindex\<close> runs from \<open>pindexFrom\<close> along \<^verbatim>\<open>pprev\<close>. The result
  is the returned flag and the value of the reference parameter \<^verbatim>\<open>nActualDepth\<close>
  afterwards.\<close>

fun IsConfirmed_loop ::
  "CDiskTxPos \<Rightarrow> CBlockIndex \<Rightarrow> int \<Rightarrow> int \<Rightarrow> CBlockIndex option \<Rightarrow> bool \<times> int" where
  "IsConfirmed_loop txindex pindexFrom nMaxDepth nActualDepth None = (False, nActualDepth)"
| "IsConfirmed_loop txindex pindexFrom nMaxDepth nActualDepth
       (Some (CBlockIndex pp h t m f d)) =
     (if nHeight pindexFrom - h < nMaxDepth
      then
        (if d = tx_nPos txindex \<and> f = tx_nFile txindex
         then (True, nHeight pindexFrom - h)
         else IsConfirmed_loop txindex pindexFrom nMaxDepth nActualDepth pp)
      else (False, nActualDepth))"

definition IsConfirmedInNPrevBlocks ::
  "CDiskTxPos \<Rightarrow> CBlockIndex option \<Rightarrow> int \<Rightarrow> int \<Rightarrow> bool \<times> int" where
  "IsConfirmedInNPrevBlocks txindex pindexFrom nMaxDepth nActualDepth =
     (case pindexFrom of
        None \<Rightarrow> (False, nActualDepth)
      | Some b \<Rightarrow> IsConfirmed_loop txindex b nMaxDepth nActualDepth (Some b))"

subsection \<open>CheckProofOfStake (lines 128-154)\<close>

text \<open>\<^verbatim>\<open>tx.vin[0]\<close> on a transaction without inputs reads out of range, which C++
  leaves undefined: the result is \<open>None\<close> there.\<close>

definition CheckProofOfStake ::
  "env \<Rightarrow> CBlockIndex \<Rightarrow> CTransaction \<Rightarrow> uint32_t \<Rightarrow> uint32_t \<Rightarrow> CCoinsView
     \<Rightarrow> (bool \<times> event list) option" where
  "CheckProofOfStake e pindexPrev tx nBits nTimeBlock view =
     (if \<not> IsCoinStake e tx
      then Some (False, [LogError ''CheckProofOfStake(): called on non-coinstake %s''])
      else
        (case vin tx of
           [] \<Rightarrow> None
         | txin # _ \<Rightarrow>
             (case GetCoin view (txin_prevout txin) of
                None \<Rightarrow>
                  Some (False,
                    [LogError ''CheckProofOfStake(): Stake prevout does not exist %s'',
                     StateDoS 100])
              | Some coinPrev \<Rightarrow>
                  if nHeight pindexPrev + 1 - coin_nHeight coinPrev < nStakeMinConfirmations e
                  then
                    Some (False,
                      [LogError ''CheckProofOfStake(): Stake prevout is not mature, expecting %i and only matured to %i'',
                       StateDoS 100])
                  else
                    (let kernelPubKey = scriptPubKey (out coinPrev) in
                     if \<not> VerifyScript e (scriptSig txin) kernelPubKey tx 0 (nValue (out coinPrev))
                     then
                       Some (False,
                         [LogError ''CheckProofOfStake(): VerifyScript failed on coinstake %s'',
                          StateDoS 100])
                     else
                       (case CheckStakeKernelHash e pindexPrev nBits (coin_nTime coinPrev)
                               (nValue (out coinPrev)) (txin_prevout txin) nTimeBlock of
                          (ok, evs) \<Rightarrow>
                            if \<not> ok
                            then
                              Some (False,
                                evs @
                                [LogError ''CheckProofOfStake(): CheckStakeKernelHash failed on coinstake %s'',
                                 StateDoS 1])
                            else Some (True, evs))))))"

subsection \<open>CheckKernel (lines 156-192)\<close>

text \<open>The body of the branch \<^verbatim>\<open>it == cache.end()\<close> (lines 168-182), with the local
  \<^verbatim>\<open>view\<close> as an argument.\<close>

definition CheckKernel_miss ::
  "env \<Rightarrow> CCoinsView \<Rightarrow> CBlockIndex \<Rightarrow> uint32_t \<Rightarrow> uint32_t \<Rightarrow> COutPoint
     \<Rightarrow> bool \<times> event list" where
  "CheckKernel_miss e view pindexPrev nBits nTime prevout =
     (case GetCoin view prevout of
        None \<Rightarrow> (False, [])
      | Some coinPrev \<Rightarrow>
          if nHeight pindexPrev + 1 - coin_nHeight coinPrev < nStakeMinConfirmations e
          then (False, [])
          else
            (case GetAncestor e pindexPrev (coin_nHeight coinPrev) of
               None \<Rightarrow> (False, [])
             | Some blockFrom \<Rightarrow>
                 if IsSpent e coinPrev then (False, [])
                 else CheckStakeKernelHash e pindexPrev nBits (block_nTime blockFrom)
                        (nValue (out coinPrev)) prevout nTime))"

text \<open>The overload with a cache (line 161). \<open>pBlockTime\<close> is \<open>None\<close> for a null
  pointer and otherwise holds the pointed-to value; its value afterwards is returned.\<close>

definition CheckKernel_cached ::
  "env \<Rightarrow> CBlockIndex \<Rightarrow> uint32_t \<Rightarrow> uint32_t \<Rightarrow> COutPoint \<Rightarrow> uint32_t option
     \<Rightarrow> StakeCacheMap \<Rightarrow> (bool \<times> event list) \<times> uint32_t option" where
  "CheckKernel_cached e pindexPrev nBits nTime prevout pBlockTime cache =
     (let it = cache prevout;
          viewDummy = CCoinsView_default;
          view = CCoinsViewCache viewDummy
      in case it of
           None \<Rightarrow> (CheckKernel_miss e view pindexPrev nBits nTime prevout, pBlockTime)
         | Some stake \<Rightarrow>
             (CheckStakeKernelHash e pindexPrev nBits (blockFromTime stake) (amount stake)
                prevout nTime,
              (case pBlockTime of None \<Rightarrow> None | Some _ \<Rightarrow> Some (blockFromTime stake))))"

text \<open>The overload without a cache (line 156).\<close>

definition CheckKernel ::
  "env \<Rightarrow> CBlockIndex \<Rightarrow> uint32_t \<Rightarrow> uint32_t \<Rightarrow> COutPoint \<Rightarrow> uint32_t option
     \<Rightarrow> (bool \<times> event list) \<times> uint32_t option" where
  "CheckKernel e pindexPrev nBits nTimeBlock prevout pBlockTime =
     (let tmp = Map.empty
      in CheckKernel_cached e pindexPrev nBits nTimeBlock prevout pBlockTime tmp)"

subsection \<open>CacheKernel (lines 194-213)\<close>

text \<open>\<^verbatim>\<open>std::map::insert\<close> leaves the map as it is when the key is present.\<close>

definition map_insert :: "('k \<rightharpoonup> 'v) \<Rightarrow> 'k \<Rightarrow> 'v \<Rightarrow> ('k \<rightharpoonup> 'v)" where
  "map_insert m k v = (case m k of None \<Rightarrow> m(k \<mapsto> v) | Some _ \<Rightarrow> m)"

definition CacheKernel ::
  "env \<Rightarrow> StakeCacheMap \<Rightarrow> COutPoint \<Rightarrow> CBlockIndex \<Rightarrow> CCoinsView \<Rightarrow> StakeCacheMap" where
  "CacheKernel e cache prevout pindexPrev view =
     (if cache prevout \<noteq> None then cache
      else
        (case GetCoin view prevout of
           None \<Rightarrow> cache
         | Some coinPrev \<Rightarrow>
             if nHeight pindexPrev + 1 - coin_nHeight coinPrev < nStakeMinConfirmations e
             then cache
             else
               (case GetAncestor e pindexPrev (coin_nHeight coinPrev) of
                  None \<Rightarrow> cache
                | Some blockFrom \<Rightarrow>
                    (let c = CStakeCache (block_nTime blockFrom) (nValue (out coinPrev))
                     in map_insert cache prevout c))))"

subsection \<open>A concrete environment\<close>

text \<open>Modelled from the spec: \<^verbatim>\<open>arith_uint256::SetCompact\<close> (arith_uint256.cpp) is not
  among the sources. The spec describes \<open>decode_compact(bits) -> (target, is_negative,
  overflowed)\<close> as expanding a compact floating-point-like difficulty encoding into a
  wide unsigned integer, detecting negative and overflowing encodings. This instance
  reads the top byte as a base-256 exponent and the low 23 bits as the mantissa, bit 23
  as the sign. The functions above take the decoder from the environment; the instance
  gives concrete inputs to evaluate them on.\<close>

definition SetCompact_ref :: "uint32_t \<Rightarrow> arith_uint256 \<times> bool \<times> bool" where
  "SetCompact_ref nCompact =
     (let nSize = unat (drop_bit 24 nCompact);
          nWord = nCompact AND 0x007fffff;
          target = (if nSize \<le> 3 then ucast (drop_bit (8 * (3 - nSize)) nWord)
                    else push_bit (8 * (nSize - 3)) (ucast nWord));
          fNegative = (nWord \<noteq> 0 \<and> nCompact AND 0x00800000 \<noteq> 0);
          fOverflow = (nWord \<noteq> 0 \<and>
             (nSize > 34 \<or> (nWord > 0xff \<and> nSize > 33) \<or> (nWord > 0xffff \<and> nSize > 32)))
      in (target, fNegative, fOverflow))"

text \<open>Modelled from the spec: \<^verbatim>\<open>CBlockIndex::GetAncestor\<close> (chain.cpp) is not among the
  sources. The spec's \<open>resolve_origin_block\<close> walks the ancestor chain from the
  prospective parent block back to the exact height at which the coin was created and
  fails if that ancestor cannot be found.\<close>

fun GetAncestor_walk :: "CBlockIndex \<Rightarrow> int \<Rightarrow> CBlockIndex option" where
  "GetAncestor_walk (CBlockIndex pp h t m f d) height =
     (if height = h then Some (CBlockIndex pp h t m f d)
      else if height > h then None
      else (case pp of None \<Rightarrow> None | Some p \<Rightarrow> GetAncestor_walk p height))"

text \<open>A stand-in digest, so that concrete inputs choose the digest: the sum of the
  items written.\<close>

fun item_val :: "ser_item \<Rightarrow> uint256" where
  "item_val (U256 w) = w"
| "item_val (U32 w) = ucast w"

definition sum_hash :: "CHashWriter \<Rightarrow> uint256" where
  "sum_hash ss = sum_list (map item_val ss)"

text \<open>The environment of the examples: the stand-in digest, the decoder above, protocol
  v2 after a fixed time with a 16-second granularity, three confirmations, a coinstake
  shape that only asks for an input, and a script check that compares the two scripts.\<close>

definition env0 :: env where
  "env0 = \<lparr> Hash = sum_hash, SetCompact = SetCompact_ref,
     IsProtocolV2 = (\<lambda>t. 1407053625 <s t), nStakeTimestampMask = 15,
     nStakeMinConfirmations = 3, GetAncestor = GetAncestor_walk,
     IsCoinStake = (\<lambda>tx. vin tx \<noteq> []),
     VerifyScript = (\<lambda>sig pk tx n a. sig = pk),
     IsSpent = (\<lambda>c. nValue (out c) = - 1), fDebug = False \<rparr>"

definition blk0 :: CBlockIndex where
  "blk0 = CBlockIndex None 0 100 1 0 8"

definition op0 :: COutPoint where
  "op0 = COutPoint 0 0"

text \<open>The example environment with a digest function that returns \<open>d\<close> for every stream.
  It is used with the double SHA-256 digest of the one stream an example hashes (items
  serialized little-endian, the 32 digest bytes read as a little-endian number), so that
  the example does not rest on the stand-in digest alone.\<close>

definition env_digest :: "uint256 \<Rightarrow> env" where
  "env_digest d = env0\<lparr>Hash := (\<lambda>ss. d)\<rparr>"

definition blk1 :: CBlockIndex where
  "blk1 = CBlockIndex (Some blk0) 1 116 2 0 300"

definition blk2 :: CBlockIndex where
  "blk2 = CBlockIndex (Some blk1) 2 132 3 0 700"

definition coin0 :: Coin where
  "coin0 = Coin (CTxOut 3 [1, 2]) 0 100"

definition view0 :: CCoinsView where
  "view0 = [op0 \<mapsto> coin0]"

definition tx0 :: CTransaction where
  "tx0 = CTransaction [CTxIn op0 [1, 2]] []"

subsection \<open>Notions used to state the properties\<close>

text \<open>The levels passed to \<^verbatim>\<open>state.DoS\<close> during a call, in order.\<close>

fun dos_levels :: "event list \<Rightarrow> int list" where
  "dos_levels [] = []"
| "dos_levels (StateDoS l # evs) = l # dos_levels evs"
| "dos_levels (_ # evs) = dos_levels evs"

text \<open>A block followed by its ancestors along \<^verbatim>\<open>pprev\<close>, nearest first; and the
  invariant of a block index that each \<^verbatim>\<open>pprev\<close> link goes down one height.\<close>

fun ancestors :: "CBlockIndex \<Rightarrow> CBlockIndex list" where
  "ancestors (CBlockIndex pp h t m f d) =
     CBlockIndex pp h t m f d # (case pp of None \<Rightarrow> [] | Some p \<Rightarrow> ancestors p)"

fun linked :: "CBlockIndex \<Rightarrow> bool" where
  "linked (CBlockIndex pp h t m f d) =
     (case pp of None \<Rightarrow> True | Some p \<Rightarrow> nHeight p = h - 1 \<and> linked p)"

definition position_matches :: "CDiskTxPos \<Rightarrow> CBlockIndex \<Rightarrow> bool" where
  "position_matches txindex b = (nDataPos b = tx_nPos txindex \<and> nFile b = tx_nFile txindex)"

fun first_index :: "('a \<Rightarrow> bool) \<Rightarrow> 'a list \<Rightarrow> nat option" where
  "first_index P [] = None"
| "first_index P (x # xs) = (if P x then Some 0 else map_option Suc (first_index P xs))"

text \<open>The chain membership check in the spec's words (4.9), to compare with the loop of
  the source: among the first \<open>max_depth\<close> blocks counted from \<open>from_block\<close> backwards,
  the first whose on-disk position matches, with its depth, or none.\<close>

definition is_confirmed_within :: "CDiskTxPos \<Rightarrow> CBlockIndex \<Rightarrow> int \<Rightarrow> nat option" where
  "is_confirmed_within txindex from_block max_depth =
     first_index (position_matches txindex) (take (nat max_depth) (ancestors from_block))"

section \<open>Properties\<close>

lemma env0_sel [simp]:
  "Hash env0 = sum_hash"
  "SetCompact env0 = SetCompact_ref"
  "IsProtocolV2 env0 = (\<lambda>t. 1407053625 <s t)"
  "nStakeTimestampMask env0 = 15"
  "nStakeMinConfirmations env0 = 3"
  "GetAncestor env0 = GetAncestor_walk"
  "IsCoinStake env0 = (\<lambda>tx. vin tx \<noteq> [])"
  "VerifyScript env0 = (\<lambda>sig pk tx n a. sig = pk)"
  "IsSpent env0 = (\<lambda>c. nValue (out c) = - 1)"
  "fDebug env0 = False"
  by (simp_all add: env0_def)

lemma env_digest_sel [simp]:
  "Hash (env_digest d) = (\<lambda>ss. d)"
  "SetCompact (env_digest d) = SetCompact_ref"
  "nStakeMinConfirmations (env_digest d) = 3"
  "GetAncestor (env_digest d) = GetAncestor_walk"
  "IsSpent (env_digest d) = (\<lambda>c. nValue (out c) = - 1)"
  "fDebug (env_digest d) = False"
  by (simp_all add: env_digest_def)

lemmas kernel_defs = CheckStakeKernelHash_def kernel_stream_def write_item_def
  CHashWriter_new_def arith_uint256_of_def UintToArith256_def

subsection \<open>The stake modifier\<close>

text \<open>Claim C7. \<open>ComputeStakeModifier\<close> returns the all-zero 256-bit value when there is
  no parent block. With a parent it returns the hash of the kernel hash followed by the
  parent's stake modifier, in that order. The result depends on nothing but these two
  values (and the hash function): two parents with the same modifier, in environments
  with the same hash, give the same result.\<close>

theorem ComputeStakeModifier_spec:
  "ComputeStakeModifier e None k = 0 \<and>
   ComputeStakeModifier e (Some p) k = Hash e [U256 k, U256 (nStakeModifier p)] \<and>
   (Hash e = Hash e' \<and> nStakeModifier p = nStakeModifier p' \<longrightarrow>
      ComputeStakeModifier e (Some p) k = ComputeStakeModifier e' (Some p') k)"
  by (simp add: ComputeStakeModifier_def write_item_def CHashWriter_new_def)

theorem ComputeStakeModifier_witness:
  "ComputeStakeModifier env0 None 7 = 0 \<and>
   ComputeStakeModifier env0 (Some blk0) 7 = 8 \<and>
   ComputeStakeModifier env0 (Some blk0) 7 =
     ComputeStakeModifier (env0\<lparr>fDebug := True\<rparr>) (Some (CBlockIndex (Some blk0) 1 160 1 0 90)) 7"
  using ComputeStakeModifier_spec [where e = env0 and k = 7 and p = blk0
      and e' = "env0\<lparr>fDebug := True\<rparr>" and p' = "CBlockIndex (Some blk0) 1 160 1 0 90"]
  by (auto simp: sum_hash_def blk0_def)

subsection \<open>The timestamp policy\<close>

text \<open>Claim C8. Before protocol v2 (decided on the block timestamp)
  \<open>CheckCoinStakeTimestamp\<close> holds exactly when block and transaction timestamps are
  equal; under protocol v2 exactly when they are equal and the transaction timestamp
  ANDed with the granularity mask is zero. \<open>CheckStakeBlockTimestamp t\<close> is
  \<open>CheckCoinStakeTimestamp t t\<close>.\<close>

theorem CheckCoinStakeTimestamp_spec:
  "(\<not> IsProtocolV2 e b \<longrightarrow> CheckCoinStakeTimestamp e b t = (b = t)) \<and>
   (IsProtocolV2 e b \<longrightarrow>
      CheckCoinStakeTimestamp e b t = (b = t \<and> t AND nStakeTimestampMask e = 0)) \<and>
   CheckStakeBlockTimestamp e b = CheckCoinStakeTimestamp e b b"
  by (simp add: CheckCoinStakeTimestamp_def CheckStakeBlockTimestamp_def)

theorem CheckCoinStakeTimestamp_witness:
  "\<not> IsProtocolV2 env0 1000 \<and> CheckCoinStakeTimestamp env0 1000 1000 \<and>
   \<not> CheckCoinStakeTimestamp env0 1000 1001 \<and>
   IsProtocolV2 env0 1500000001 \<and> \<not> CheckCoinStakeTimestamp env0 1500000001 1500000001 \<and>
   IsProtocolV2 env0 1500000016 \<and> CheckCoinStakeTimestamp env0 1500000016 1500000016 \<and>
   \<not> CheckStakeBlockTimestamp env0 1500000001 \<and> CheckStakeBlockTimestamp env0 1500000016"
  using CheckCoinStakeTimestamp_spec [where e = env0 and b = 1000 and t = 1000]
    CheckCoinStakeTimestamp_spec [where e = env0 and b = 1000 and t = 1001]
    CheckCoinStakeTimestamp_spec [where e = env0 and b = 1500000001 and t = 1500000001]
    CheckCoinStakeTimestamp_spec [where e = env0 and b = 1500000016 and t = 1500000016]
  by (simp add: word_sless_alt)

subsection \<open>The kernel hash check\<close>

lemma unat_weighted:
  "unat ((t::256 word) * arith_uint256_of (a::64 word)) = (unat t * unat a) mod 2 ^ 256"
proof -
  have "unat a < 2 ^ 64"
    using unsigned_less [of a, where 'a = nat] by simp
  then have "unat a < 2 ^ 256"
    by (rule less_le_trans) simp
  then have "unat (ucast a :: 256 word) = unat a"
    by (simp add: unsigned_ucast_eq take_bit_nat_eq_self)
  then show ?thesis
    by (simp add: arith_uint256_of_def unat_word_ariths)
qed

text \<open>Claim C5. \<open>CheckStakeKernelHash\<close> rejects whenever the candidate timestamp is
  before the coin's creation-block time, or the compact target decodes as negative,
  overflowed or zero, or the amount is zero; and on each of these rejections no kernel
  hash has been computed: the events of the call hold no \<open>HashComputed\<close>.\<close>

theorem CheckStakeKernelHash_rejects_early:
  "nTime < nBlockFromTime \<or>
   (case SetCompact e nBits of (bnTarget, fNegative, fOverflow) \<Rightarrow>
      fNegative \<or> fOverflow \<or> bnTarget = 0) \<or>
   prevOutAmount = 0 \<Longrightarrow>
   fst (CheckStakeKernelHash e pindexPrev nBits nBlockFromTime prevOutAmount prevout nTime) = False \<and>
   (\<forall>ss. HashComputed ss \<notin> set (snd
      (CheckStakeKernelHash e pindexPrev nBits nBlockFromTime prevOutAmount prevout nTime)))"
  by (auto simp: CheckStakeKernelHash_def split: prod.splits)

theorem CheckStakeKernelHash_rejects_early_witness:
  "CheckStakeKernelHash env0 blk0 0x2100ffff 101 5 op0 100 = (False, [LogError ''%s: nTime violation'']) \<and>
   CheckStakeKernelHash env0 blk0 0x21800001 100 5 op0 100 = (False, [LogError ''%s: SetCompact failed'']) \<and>
   CheckStakeKernelHash env0 blk0 0x23000001 100 5 op0 100 = (False, [LogError ''%s: SetCompact failed'']) \<and>
   CheckStakeKernelHash env0 blk0 0x21000000 100 5 op0 100 = (False, [LogError ''%s: SetCompact failed'']) \<and>
   CheckStakeKernelHash env0 blk0 0x2100ffff 100 0 op0 100 = (False, [LogError ''%s: nValueIn == 0''])"
  using CheckStakeKernelHash_rejects_early [where e = env0 and pindexPrev = blk0 and nBits = "0x2100ffff"
      and nTime = 100 and prevout = op0 and nBlockFromTime = 101 and prevOutAmount = 5]
   CheckStakeKernelHash_rejects_early [where e = env0 and pindexPrev = blk0 and nBits = "0x21800001"
      and nTime = 100 and prevout = op0 and nBlockFromTime = 100 and prevOutAmount = 5]
   CheckStakeKernelHash_rejects_early [where e = env0 and pindexPrev = blk0 and nBits = "0x23000001"
      and nTime = 100 and prevout = op0 and nBlockFromTime = 100 and prevOutAmount = 5]
   CheckStakeKernelHash_rejects_early [where e = env0 and pindexPrev = blk0 and nBits = "0x21000000"
      and nTime = 100 and prevout = op0 and nBlockFromTime = 100 and prevOutAmount = 5]
   CheckStakeKernelHash_rejects_early [where e = env0 and pindexPrev = blk0 and nBits = "0x2100ffff"
      and nTime = 100 and prevout = op0 and nBlockFromTime = 100 and prevOutAmount = 0]
  by (simp add: CheckStakeKernelHash_def SetCompact_ref_def)

text \<open>What the comparison of lines 91-104 computes, once the timestamp, decode and
  nonzero-amount checks have passed: the call accepts exactly when the digest of modifier,
  coin creation time, outpoint hash, outpoint index and candidate time (written in that
  order), read as a 256-bit unsigned integer, is less than or equal to the decoded target
  times the amount as \<^verbatim>\<open>arith_uint256\<close> holds it, that is modulo \<open>2 ^ 256\<close>.\<close>

lemma CheckStakeKernelHash_accepts_iff:
  assumes "\<not> nTime < nBlockFromTime"
    and "SetCompact e nBits = (bnTarget, False, False)"
    and "bnTarget \<noteq> 0"
    and "prevOutAmount \<noteq> 0"
  shows "fst (CheckStakeKernelHash e pindexPrev nBits nBlockFromTime prevOutAmount prevout nTime) =
     (unat (Hash e [U256 (nStakeModifier pindexPrev), U32 nBlockFromTime,
                    U256 (GetHash prevout), U32 (GetN prevout), U32 nTime])
        \<le> (unat bnTarget * unat prevOutAmount) mod 2 ^ 256)"
proof -
  let ?ss = "[U256 (nStakeModifier pindexPrev), U32 nBlockFromTime,
              U256 (GetHash prevout), U32 (GetN prevout), U32 nTime]"
  have ss: "kernel_stream pindexPrev nBlockFromTime prevout nTime = ?ss"
    by (simp add: kernel_stream_def write_item_def CHashWriter_new_def)
  have "fst (CheckStakeKernelHash e pindexPrev nBits nBlockFromTime prevOutAmount prevout nTime) =
      (Hash e ?ss \<le> bnTarget * arith_uint256_of prevOutAmount)"
    using assms by (auto simp: CheckStakeKernelHash_def ss UintToArith256_def Let_def)
  then show ?thesis
    by (simp add: word_le_nat_alt unat_weighted)
qed

text \<open>With the stand-in digest the inputs below give the digests 201, 201, 200 and 201:
  the second and third show that the comparison is not strict (target 100, amount 2: 201
  is rejected, 200 accepted).\<close>

lemma CheckStakeKernelHash_boundary_examples:
  "\<not> (100::32 word) < 100 \<and> SetCompact env0 0x2100ffff = (0xffff * 2 ^ 240, False, False) \<and>
   fst (CheckStakeKernelHash env0 blk0 0x2100ffff 100 1 op0 100) \<and>
   \<not> fst (CheckStakeKernelHash env0 blk0 0x03000064 100 2 op0 100) \<and>
   fst (CheckStakeKernelHash env0 blk0 0x03000064 99 2 op0 100) \<and>
   \<not> fst (CheckStakeKernelHash env0 blk0 0x21008000 100 2 op0 100)"
  using CheckStakeKernelHash_accepts_iff [where e = env0 and pindexPrev = blk0 and nBits = "0x2100ffff"
      and nTime = 100 and prevout = op0 and nBlockFromTime = 100 and prevOutAmount = 1
      and bnTarget = "0xffff * 2 ^ 240"]
   CheckStakeKernelHash_accepts_iff [where e = env0 and pindexPrev = blk0 and nBits = "0x03000064"
      and nTime = 100 and prevout = op0 and nBlockFromTime = 100 and prevOutAmount = 2
      and bnTarget = "100"]
   CheckStakeKernelHash_accepts_iff [where e = env0 and pindexPrev = blk0 and nBits = "0x03000064"
      and nTime = 100 and prevout = op0 and nBlockFromTime = 99 and prevOutAmount = 2
      and bnTarget = "100"]
   CheckStakeKernelHash_accepts_iff [where e = env0 and pindexPrev = blk0 and nBits = "0x21008000"
      and nTime = 100 and prevout = op0 and nBlockFromTime = 100 and prevOutAmount = 2
      and bnTarget = "2 ^ 255"]
  by (simp add: SetCompact_ref_def sum_hash_def blk0_def op0_def)

text \<open>Claim C3. After the timestamp, decode and nonzero-amount checks \<open>CheckStakeKernelHash\<close>
  should accept exactly when the kernel digest is less than or equal to the decoded
  target multiplied by the coin amount, as the comment above the function says (the hash
  must meet \<^verbatim>\<open>bnTarget * nWeight\<close>, so that the chance is proportional to the coins
  owned). The code does so only while the product fits in 256 bits: line 92 multiplies in
  \<^verbatim>\<open>arith_uint256\<close> and keeps the low 256 bits. With the target \<open>2 ^ 255\<close> and any
  environment: the amount 2 gives the product \<open>2 ^ 256\<close>, above every digest, yet every
  nonzero digest is rejected; and a digest of at most \<open>2 ^ 255\<close> is accepted with the
  amounts 1 and 3 but rejected with the amount 2.\<close>

theorem CheckStakeKernelHash_product_wraps:
  assumes "\<not> nTime < nBlockFromTime"
    and "SetCompact e nBits = (2 ^ 255, False, False)"
  shows
    "(Hash e (kernel_stream pindexPrev nBlockFromTime prevout nTime) \<noteq> 0 \<longrightarrow>
        unat (Hash e (kernel_stream pindexPrev nBlockFromTime prevout nTime))
          \<le> unat (2 ^ 255 :: 256 word) * unat (2 :: 64 word) \<and>
        \<not> fst (CheckStakeKernelHash e pindexPrev nBits nBlockFromTime 2 prevout nTime)) \<and>
     (Hash e (kernel_stream pindexPrev nBlockFromTime prevout nTime) \<le> 2 ^ 255 \<longrightarrow>
        fst (CheckStakeKernelHash e pindexPrev nBits nBlockFromTime 1 prevout nTime) \<and>
        fst (CheckStakeKernelHash e pindexPrev nBits nBlockFromTime 3 prevout nTime))"
proof -
  let ?d = "Hash e (kernel_stream pindexPrev nBlockFromTime prevout nTime)"
  have b: "unat ?d \<le> unat (2 ^ 255 :: 256 word) * unat (2 :: 64 word)"
    using unsigned_less [of ?d, where 'a = nat] by simp
  have ks: "[U256 (nStakeModifier pindexPrev), U32 nBlockFromTime,
             U256 (GetHash prevout), U32 (GetN prevout), U32 nTime] =
      kernel_stream pindexPrev nBlockFromTime prevout nTime"
    by (simp add: kernel_stream_def write_item_def CHashWriter_new_def)
  have t: "(2 ^ 255 :: 256 word) \<noteq> 0"
    by simp
  have acc: "fst (CheckStakeKernelHash e pindexPrev nBits nBlockFromTime a prevout nTime) =
      (unat ?d \<le> (2 ^ 255 * unat a) mod 2 ^ 256)" if "a \<noteq> 0" for a
    using CheckStakeKernelHash_accepts_iff [OF assms t that, of pindexPrev prevout]
    by (simp add: ks)
  have r2: "?d \<noteq> 0 \<Longrightarrow>
      \<not> fst (CheckStakeKernelHash e pindexPrev nBits nBlockFromTime 2 prevout nTime)"
    by (simp add: acc unat_eq_zero)
  have r13: "fst (CheckStakeKernelHash e pindexPrev nBits nBlockFromTime 1 prevout nTime) \<and>
      fst (CheckStakeKernelHash e pindexPrev nBits nBlockFromTime 3 prevout nTime)"
    if "?d \<le> 2 ^ 255"
  proof -
    from that have "unat ?d \<le> unat (2 ^ 255 :: 256 word)"
      by (simp only: word_le_nat_alt)
    then have "unat ?d \<le> 2 ^ 255"
      by simp
    then show ?thesis
      by (simp add: acc)
  qed
  from b r2 r13 show ?thesis by blast
qed

text \<open>The target \<open>2 ^ 255\<close> is the compact value \<open>0x21008000\<close>. The stream of the example
  (modifier 1, creation time 100, outpoint hash 0 and index 0, candidate time 103) has
  the stand-in digest 204 and the double SHA-256 digest \<open>0x72a6...5c06\<close>; both are
  nonzero and at most \<open>2 ^ 255\<close>.\<close>

theorem CheckStakeKernelHash_product_wraps_witness:
  "\<not> (103::32 word) < 100 \<and> SetCompact env0 0x21008000 = (2 ^ 255, False, False) \<and>
   Hash env0 (kernel_stream blk0 100 op0 103) = 204 \<and>
   fst (CheckStakeKernelHash env0 blk0 0x21008000 100 1 op0 103) \<and>
   \<not> fst (CheckStakeKernelHash env0 blk0 0x21008000 100 2 op0 103) \<and>
   fst (CheckStakeKernelHash env0 blk0 0x21008000 100 3 op0 103) \<and>
   fst (CheckStakeKernelHash
          (env_digest 0x72a660d2adb187a47cbc1299d58c4383721e6f01061e1a1d8b627f75298c5c06)
          blk0 0x21008000 100 1 op0 103) \<and>
   \<not> fst (CheckStakeKernelHash
          (env_digest 0x72a660d2adb187a47cbc1299d58c4383721e6f01061e1a1d8b627f75298c5c06)
          blk0 0x21008000 100 2 op0 103) \<and>
   fst (CheckStakeKernelHash
          (env_digest 0x72a660d2adb187a47cbc1299d58c4383721e6f01061e1a1d8b627f75298c5c06)
          blk0 0x21008000 100 3 op0 103)"
proof -
  have s: "SetCompact_ref 0x21008000 = (2 ^ 255, False, False)"
    by (simp add: SetCompact_ref_def)
  have h: "sum_hash (kernel_stream blk0 100 op0 103) = 204"
    by (simp add: kernel_stream_def write_item_def CHashWriter_new_def sum_hash_def
        blk0_def op0_def)
  show ?thesis
    using CheckStakeKernelHash_product_wraps [where e = env0 and pindexPrev = blk0
        and nBits = "0x21008000" and nBlockFromTime = 100 and prevout = op0 and nTime = 103]
      CheckStakeKernelHash_product_wraps [where
        e = "env_digest 0x72a660d2adb187a47cbc1299d58c4383721e6f01061e1a1d8b627f75298c5c06"
        and pindexPrev = blk0
        and nBits = "0x21008000" and nBlockFromTime = 100 and prevout = op0 and nTime = 103]
    by (simp add: s h)
qed

subsection \<open>The kernel check with and without cache\<close>

text \<open>Claim C2. The cache-miss branch of the cached \<open>CheckKernel\<close> asks a view built over
  a fresh empty \<^verbatim>\<open>CCoinsView\<close>, which has no coin for any outpoint. So for every prevout
  absent from the cache, and for every call of the overload without a cache (which
  passes an empty temporary cache), the result is false; nothing is logged or hashed and
  \<^verbatim>\<open>*pBlockTime\<close> is left as it was.\<close>

theorem CheckKernel_miss_rejects:
  "(cache prevout = None \<longrightarrow>
      CheckKernel_cached e pindexPrev nBits nTime prevout pBlockTime cache =
        ((False, []), pBlockTime)) \<and>
   CheckKernel e pindexPrev nBits nTime prevout pBlockTime = ((False, []), pBlockTime)"
  by (simp add: CheckKernel_def CheckKernel_cached_def CheckKernel_miss_def GetCoin_def
      CCoinsViewCache_def CCoinsView_default_def)

theorem CheckKernel_miss_rejects_witness:
  "[COutPoint 5 1 \<mapsto> CStakeCache 100 1] op0 = None \<and>
   CheckKernel_cached env0 blk0 0x2100ffff 200 op0 (Some 0) [COutPoint 5 1 \<mapsto> CStakeCache 100 1]
     = ((False, []), Some 0) \<and>
   CheckKernel env0 blk0 0x2100ffff 200 op0 (Some 0) = ((False, []), Some 0)"
  using CheckKernel_miss_rejects [where e = env0 and pindexPrev = blk0 and nBits = "0x2100ffff"
      and nTime = 200 and prevout = op0 and pBlockTime = "Some 0"
      and cache = "[COutPoint 5 1 \<mapsto> CStakeCache 100 1]"]
  by (simp add: op0_def)

text \<open>Claim C1. The cached and the uncached entry point of \<open>CheckKernel\<close> should give the
  same verdict for the same prevout and chain state. The code does not, in any
  environment: whenever the cache holds the prevout and the kernel hash check accepts the
  cached pair, the cached call accepts and the call without cache rejects, because its
  miss branch looks the coin up in the empty view instead of the UTXO set.\<close>

theorem CheckKernel_cache_divergence:
  "cache prevout = Some stake \<and>
   fst (CheckStakeKernelHash e pindexPrev nBits (blockFromTime stake) (amount stake) prevout nTime)
   \<longrightarrow>
   fst (fst (CheckKernel_cached e pindexPrev nBits nTime prevout pBlockTime cache)) \<and>
   \<not> fst (fst (CheckKernel e pindexPrev nBits nTime prevout pBlockTime))"
  by (simp add: CheckKernel_def CheckKernel_cached_def CheckKernel_miss_def GetCoin_def
      CCoinsViewCache_def CCoinsView_default_def)

text \<open>A coin of amount 3 created at height 0, with exactly three confirmations at the
  parent \<open>blk2\<close>, is cached by \<open>CacheKernel\<close> from the UTXO view. With the compact target
  \<open>0x2100ffff\<close> the weighted target is \<open>0xfffd * 2 ^ 240\<close>; the stand-in digest 253 and the
  double SHA-256 digest \<open>0xa947...da85\<close> of the stream (modifier 3, creation time 100,
  outpoint hash 0 and index 0, candidate time 150) are both below it.\<close>

theorem CheckKernel_cache_divergence_witness:
  "CacheKernel env0 Map.empty op0 blk2 view0 = [op0 \<mapsto> CStakeCache 100 3] \<and>
   fst (CheckStakeKernelHash env0 blk2 0x2100ffff 100 3 op0 150) \<and>
   fst (fst (CheckKernel_cached env0 blk2 0x2100ffff 150 op0 None
               (CacheKernel env0 Map.empty op0 blk2 view0))) \<and>
   \<not> fst (fst (CheckKernel env0 blk2 0x2100ffff 150 op0 None)) \<and>
   fst (fst (CheckKernel_cached
               (env_digest 0xa9474d5fe7c4749221c09093b3f1fa85937b94e5cf3eb7fdff48e3247e23da85)
               blk2 0x2100ffff 150 op0 None
               (CacheKernel
                  (env_digest 0xa9474d5fe7c4749221c09093b3f1fa85937b94e5cf3eb7fdff48e3247e23da85)
                  Map.empty op0 blk2 view0))) \<and>
   \<not> fst (fst (CheckKernel
               (env_digest 0xa9474d5fe7c4749221c09093b3f1fa85937b94e5cf3eb7fdff48e3247e23da85)
               blk2 0x2100ffff 150 op0 None))"
proof -
  have c: "CacheKernel e Map.empty op0 blk2 view0 = [op0 \<mapsto> CStakeCache 100 3]"
    if "nStakeMinConfirmations e = 3" and "GetAncestor e = GetAncestor_walk" for e
    using that
    by (simp add: CacheKernel_def map_insert_def GetCoin_def view0_def coin0_def blk2_def
        blk1_def blk0_def op0_def)
  have k0: "fst (CheckStakeKernelHash env0 blk2 0x2100ffff 100 3 op0 150)"
    by (simp add: kernel_defs SetCompact_ref_def sum_hash_def blk2_def op0_def)
  have k1: "fst (CheckStakeKernelHash
      (env_digest 0xa9474d5fe7c4749221c09093b3f1fa85937b94e5cf3eb7fdff48e3247e23da85)
      blk2 0x2100ffff 100 3 op0 150)"
    by (simp add: kernel_defs SetCompact_ref_def)
  show ?thesis
    using CheckKernel_cache_divergence [where e = env0 and pindexPrev = blk2
        and nBits = "0x2100ffff" and nTime = 150 and prevout = op0 and pBlockTime = None
        and cache = "[op0 \<mapsto> CStakeCache 100 3]" and stake = "CStakeCache 100 3"]
      CheckKernel_cache_divergence [where
        e = "env_digest 0xa9474d5fe7c4749221c09093b3f1fa85937b94e5cf3eb7fdff48e3247e23da85"
        and pindexPrev = blk2
        and nBits = "0x2100ffff" and nTime = 150 and prevout = op0 and pBlockTime = None
        and cache = "[op0 \<mapsto> CStakeCache 100 3]" and stake = "CStakeCache 100 3"]
      k0 k1
    by (simp add: c)
qed

subsection \<open>Populating the stake cache\<close>

text \<open>Claim C10. \<open>CacheKernel\<close> leaves the cache as it is when the key is present, when
  the coin is not in the view, when the coin is immature, and when the ancestor at the
  coin's height is not found. Only when all of these succeed does it add the pair
  (creation-block time, amount) under the outpoint. Every entry present before is present
  unchanged afterwards, and no key other than the outpoint changes.\<close>

theorem CacheKernel_spec:
  "(cache prevout \<noteq> None \<longrightarrow> CacheKernel e cache prevout pindexPrev view = cache) \<and>
   (view prevout = None \<longrightarrow> CacheKernel e cache prevout pindexPrev view = cache) \<and>
   (\<forall>c. view prevout = Some c \<longrightarrow>
      (nHeight pindexPrev + 1 - coin_nHeight c < nStakeMinConfirmations e \<longrightarrow>
         CacheKernel e cache prevout pindexPrev view = cache) \<and>
      (GetAncestor e pindexPrev (coin_nHeight c) = None \<longrightarrow>
         CacheKernel e cache prevout pindexPrev view = cache) \<and>
      (\<forall>b. cache prevout = None \<and>
           \<not> nHeight pindexPrev + 1 - coin_nHeight c < nStakeMinConfirmations e \<and>
           GetAncestor e pindexPrev (coin_nHeight c) = Some b \<longrightarrow>
         CacheKernel e cache prevout pindexPrev view =
           cache(prevout \<mapsto> CStakeCache (block_nTime b) (nValue (out c))))) \<and>
   (\<forall>k v. cache k = Some v \<longrightarrow> CacheKernel e cache prevout pindexPrev view k = Some v) \<and>
   (\<forall>k. k \<noteq> prevout \<longrightarrow> CacheKernel e cache prevout pindexPrev view k = cache k)"
  by (auto simp: CacheKernel_def GetCoin_def map_insert_def split: option.splits)

theorem CacheKernel_witness:
  "CacheKernel env0 Map.empty op0 blk2 view0 = [op0 \<mapsto> CStakeCache 100 3] \<and>
   CacheKernel env0 [op0 \<mapsto> CStakeCache 7 7] op0 blk2 view0 = [op0 \<mapsto> CStakeCache 7 7] \<and>
   CacheKernel env0 Map.empty op0 blk1 view0 = Map.empty \<and>
   CacheKernel env0 Map.empty (COutPoint 9 9) blk2 view0 = Map.empty \<and>
   CacheKernel env0 Map.empty op0 blk2 [op0 \<mapsto> Coin (CTxOut 2 []) (- 1) 100] = Map.empty"
  using CacheKernel_spec [where e = env0 and cache = Map.empty and prevout = op0
      and pindexPrev = blk2 and view = view0]
    CacheKernel_spec [where e = env0 and cache = "[op0 \<mapsto> CStakeCache 7 7]" and prevout = op0
      and pindexPrev = blk2 and view = view0]
    CacheKernel_spec [where e = env0 and cache = Map.empty and prevout = op0
      and pindexPrev = blk1 and view = view0]
    CacheKernel_spec [where e = env0 and cache = Map.empty and prevout = "COutPoint 9 9"
      and pindexPrev = blk2 and view = view0]
    CacheKernel_spec [where e = env0 and cache = Map.empty and prevout = op0
      and pindexPrev = blk2 and view = "[op0 \<mapsto> Coin (CTxOut 2 []) (- 1) 100]"]
  by (simp add: view0_def coin0_def blk2_def blk1_def blk0_def op0_def)

subsection \<open>The top-level check\<close>

lemma dos_levels_append: "dos_levels (xs @ ys) = dos_levels xs @ dos_levels ys"
  by (induction xs rule: dos_levels.induct) simp_all

lemma CheckStakeKernelHash_no_DoS:
  "CheckStakeKernelHash e p nBits t0 a op t = (ok, evs) \<Longrightarrow> dos_levels evs = []"
  by (auto simp: CheckStakeKernelHash_def Let_def split: prod.splits if_splits)

text \<open>Claim C4. \<open>CheckProofOfStake\<close> accepts if and only if the transaction is a
  coinstake, the coin referenced by its first input is in the UTXO view, that coin has
  the minimum confirmations at parent height + 1, the script of the input verifies, and
  the kernel hash check passes. A call on a non-coinstake flags nothing. On a coinstake
  the levels flagged through \<^verbatim>\<open>state.DoS\<close> are: 100 when the coin is missing, when it is
  immature and when the script fails; 1 when only the kernel hash check fails; none on
  acceptance.\<close>

theorem CheckProofOfStake_spec:
  "((\<exists>evs. CheckProofOfStake e pindexPrev tx nBits nTimeBlock view = Some (True, evs)) =
      (IsCoinStake e tx \<and>
       (\<exists>txin rest c. vin tx = txin # rest \<and> view (txin_prevout txin) = Some c \<and>
          nStakeMinConfirmations e \<le> nHeight pindexPrev + 1 - coin_nHeight c \<and>
          VerifyScript e (scriptSig txin) (scriptPubKey (out c)) tx 0 (nValue (out c)) \<and>
          fst (CheckStakeKernelHash e pindexPrev nBits (coin_nTime c) (nValue (out c))
                 (txin_prevout txin) nTimeBlock)))) \<and>
   (\<not> IsCoinStake e tx \<longrightarrow>
      (\<exists>evs. CheckProofOfStake e pindexPrev tx nBits nTimeBlock view = Some (False, evs) \<and>
         dos_levels evs = [])) \<and>
   (\<forall>txin rest. IsCoinStake e tx \<and> vin tx = txin # rest \<longrightarrow>
      (\<exists>ok evs. CheckProofOfStake e pindexPrev tx nBits nTimeBlock view = Some (ok, evs) \<and>
         dos_levels evs =
           (case view (txin_prevout txin) of
              None \<Rightarrow> [100]
            | Some c \<Rightarrow>
                if nHeight pindexPrev + 1 - coin_nHeight c < nStakeMinConfirmations e then [100]
                else if \<not> VerifyScript e (scriptSig txin) (scriptPubKey (out c)) tx 0
                           (nValue (out c)) then [100]
                else if \<not> fst (CheckStakeKernelHash e pindexPrev nBits (coin_nTime c)
                           (nValue (out c)) (txin_prevout txin) nTimeBlock) then [1]
                else [])))"
proof (intro conjI allI impI)
  show "(\<exists>evs. CheckProofOfStake e pindexPrev tx nBits nTimeBlock view = Some (True, evs)) =
      (IsCoinStake e tx \<and>
       (\<exists>txin rest c. vin tx = txin # rest \<and> view (txin_prevout txin) = Some c \<and>
          nStakeMinConfirmations e \<le> nHeight pindexPrev + 1 - coin_nHeight c \<and>
          VerifyScript e (scriptSig txin) (scriptPubKey (out c)) tx 0 (nValue (out c)) \<and>
          fst (CheckStakeKernelHash e pindexPrev nBits (coin_nTime c) (nValue (out c))
                 (txin_prevout txin) nTimeBlock)))"
    by (auto simp: CheckProofOfStake_def GetCoin_def Let_def
        split: list.splits option.splits prod.splits if_splits)
next
  assume "\<not> IsCoinStake e tx"
  then show "\<exists>evs. CheckProofOfStake e pindexPrev tx nBits nTimeBlock view = Some (False, evs) \<and>
         dos_levels evs = []"
    by (simp add: CheckProofOfStake_def)
next
  fix txin rest
  assume "IsCoinStake e tx \<and> vin tx = txin # rest"
  then show "\<exists>ok evs. CheckProofOfStake e pindexPrev tx nBits nTimeBlock view = Some (ok, evs) \<and>
         dos_levels evs =
           (case view (txin_prevout txin) of
              None \<Rightarrow> [100]
            | Some c \<Rightarrow>
                if nHeight pindexPrev + 1 - coin_nHeight c < nStakeMinConfirmations e then [100]
                else if \<not> VerifyScript e (scriptSig txin) (scriptPubKey (out c)) tx 0
                           (nValue (out c)) then [100]
                else if \<not> fst (CheckStakeKernelHash e pindexPrev nBits (coin_nTime c)
                           (nValue (out c)) (txin_prevout txin) nTimeBlock) then [1]
                else [])"
    by (auto simp: CheckProofOfStake_def GetCoin_def Let_def dos_levels_append
        dest: CheckStakeKernelHash_no_DoS
        split: list.splits option.splits prod.splits if_splits)
qed

theorem CheckProofOfStake_witness:
  "CheckProofOfStake env0 blk2 tx0 0x03000064 150 view0 =
     Some (True, [HashComputed [U256 3, U32 100, U256 0, U32 0, U32 150]]) \<and>
   CheckProofOfStake env0 blk2 tx0 0x03000064 200 view0 =
     Some (False, [HashComputed [U256 3, U32 100, U256 0, U32 0, U32 200],
        LogError ''CheckProofOfStake(): CheckStakeKernelHash failed on coinstake %s'', StateDoS 1]) \<and>
   CheckProofOfStake env0 blk2 tx0 0x03000064 200 Map.empty =
     Some (False, [LogError ''CheckProofOfStake(): Stake prevout does not exist %s'', StateDoS 100]) \<and>
   CheckProofOfStake env0 blk1 tx0 0x03000064 200 view0 =
     Some (False, [LogError ''CheckProofOfStake(): Stake prevout is not mature, expecting %i and only matured to %i'', StateDoS 100]) \<and>
   CheckProofOfStake env0 blk2 (CTransaction [CTxIn op0 [9]] []) 0x03000064 200 view0 =
     Some (False, [LogError ''CheckProofOfStake(): VerifyScript failed on coinstake %s'', StateDoS 100]) \<and>
   CheckProofOfStake env0 blk2 (CTransaction [] []) 0x03000064 200 view0 =
     Some (False, [LogError ''CheckProofOfStake(): called on non-coinstake %s''])"
  using CheckProofOfStake_spec [where e = env0 and pindexPrev = blk2 and tx = tx0
      and nBits = "0x03000064" and nTimeBlock = 150 and view = view0]
    CheckProofOfStake_spec [where e = env0 and pindexPrev = blk2 and tx = tx0
      and nBits = "0x03000064" and nTimeBlock = 200 and view = view0]
  by (simp add: CheckProofOfStake_def kernel_defs GetCoin_def SetCompact_ref_def sum_hash_def
      view0_def coin0_def tx0_def blk2_def blk1_def blk0_def op0_def)

subsection \<open>Maturity\<close>

text \<open>The branch of lines 168-182, run on a view that holds the coin: it goes on to the
  kernel hash exactly when parent height + 1 minus the coin's creation height is at least
  the minimum confirmation count.\<close>

lemma CheckKernel_miss_maturity:
  "view prevout = Some c \<Longrightarrow> GetAncestor e pindexPrev (coin_nHeight c) = Some b \<Longrightarrow>
   \<not> IsSpent e c \<Longrightarrow>
   CheckKernel_miss e view pindexPrev nBits nTime prevout =
     (if nStakeMinConfirmations e \<le> nHeight pindexPrev + 1 - coin_nHeight c
      then CheckStakeKernelHash e pindexPrev nBits (block_nTime b) (nValue (out c)) prevout nTime
      else (False, []))"
  by (simp add: CheckKernel_miss_def GetCoin_def)



subsection \<open>Chain membership\<close>

lemma IsConfirmed_loop_refines:
  "linked b \<Longrightarrow> nHeight pindexFrom - nHeight b = int k \<Longrightarrow>
   IsConfirmed_loop txindex pindexFrom n d0 (Some b) =
     (case first_index (position_matches txindex) (take (nat n - k) (ancestors b)) of
        None \<Rightarrow> (False, d0)
      | Some i \<Rightarrow> (True, int (k + i)))"
proof (induction b arbitrary: k)
  case (CBlockIndex pp h t m f d)
  show ?case
  proof (cases "int k < n")
    case False
    then have "nat n - k = 0" by simp
    with False CBlockIndex.prems show ?thesis by simp
  next
    case True
    then obtain j where j: "nat n - k = Suc j"
      by (cases "nat n - k") auto
    have pm: "position_matches txindex (CBlockIndex pp h t m f d) =
        (d = tx_nPos txindex \<and> f = tx_nFile txindex)"
      by (simp add: position_matches_def)
    show ?thesis
    proof (cases "position_matches txindex (CBlockIndex pp h t m f d)")
      case True
      with \<open>int k < n\<close> CBlockIndex.prems j pm show ?thesis
        by simp
    next
      case nomatch: False
      show ?thesis
      proof (cases pp)
        case None
        with nomatch \<open>int k < n\<close> CBlockIndex.prems j pm show ?thesis
          by simp
      next
        case (Some p)
        with CBlockIndex.prems have lp: "linked p" and hp: "nHeight pindexFrom - nHeight p = int (Suc k)"
          by simp_all
        have jk: "nat n - Suc k = j" using j by simp
        have "IsConfirmed_loop txindex pindexFrom n d0 (Some p) =
           (case first_index (position_matches txindex) (take (nat n - Suc k) (ancestors p)) of
              None \<Rightarrow> (False, d0)
            | Some i \<Rightarrow> (True, int (Suc k + i)))"
          using CBlockIndex.IH [of p "Suc k"] Some lp hp by simp
        with nomatch \<open>int k < n\<close> CBlockIndex.prems j jk Some pm show ?thesis
          by (auto split: option.splits)
      qed
    qed
  qed
qed

text \<open>Claim C9, as stated: a position equal to the starting block's own position is
  reported as a match with depth 0. With \<open>nMaxDepth = 0\<close> (or below) the loop condition
  \<open>0 < nMaxDepth\<close> fails at the starting block and the call reports no match.\<close>

theorem IsConfirmedInNPrevBlocks_zero_depth_counterexample:
  "position_matches (CDiskTxPos 0 700) blk2 \<and>
   IsConfirmedInNPrevBlocks (CDiskTxPos 0 700) (Some blk2) 0 (- 1) = (False, - 1)"
  by (simp add: IsConfirmedInNPrevBlocks_def position_matches_def blk2_def)

text \<open>Claim C9, amended: \<open>IsConfirmedInNPrevBlocks\<close> returns a match with depth 0 when
  the position equals the starting block's own recorded position and \<open>nMaxDepth\<close> is at
  least 1. On a block index whose \<^verbatim>\<open>pprev\<close> links each go down one height it returns
  the depth of the first (shallowest) of the \<open>nMaxDepth\<close> blocks from the starting block
  backwards whose file and data position both match, and no match (leaving
  \<open>nActualDepth\<close> as it was) when none of them matches.\<close>

theorem IsConfirmedInNPrevBlocks_spec:
  "(0 < nMaxDepth \<and> position_matches txindex b \<longrightarrow>
      IsConfirmedInNPrevBlocks txindex (Some b) nMaxDepth d0 = (True, 0)) \<and>
   (linked b \<longrightarrow>
      IsConfirmedInNPrevBlocks txindex (Some b) nMaxDepth d0 =
        (case is_confirmed_within txindex b nMaxDepth of
           None \<Rightarrow> (False, d0)
         | Some i \<Rightarrow> (True, int i)))"
proof (intro conjI impI)
  assume "0 < nMaxDepth \<and> position_matches txindex b"
  then show "IsConfirmedInNPrevBlocks txindex (Some b) nMaxDepth d0 = (True, 0)"
    by (cases b) (simp add: IsConfirmedInNPrevBlocks_def position_matches_def)
next
  assume "linked b"
  then show "IsConfirmedInNPrevBlocks txindex (Some b) nMaxDepth d0 =
        (case is_confirmed_within txindex b nMaxDepth of
           None \<Rightarrow> (False, d0)
         | Some i \<Rightarrow> (True, int i))"
    using IsConfirmed_loop_refines [of b b 0 txindex nMaxDepth d0]
    by (simp add: IsConfirmedInNPrevBlocks_def is_confirmed_within_def split: option.splits)
qed

theorem IsConfirmedInNPrevBlocks_witness:
  "linked blk2 \<and> position_matches (CDiskTxPos 0 700) blk2 \<and>
   IsConfirmedInNPrevBlocks (CDiskTxPos 0 700) (Some blk2) 1 (- 1) = (True, 0) \<and>
   IsConfirmedInNPrevBlocks (CDiskTxPos 0 8) (Some blk2) 3 (- 1) = (True, 2) \<and>
   IsConfirmedInNPrevBlocks (CDiskTxPos 0 8) (Some blk2) 2 (- 1) = (False, - 1) \<and>
   IsConfirmedInNPrevBlocks (CDiskTxPos 1 8) (Some blk2) 10 (- 1) = (False, - 1)"
  using IsConfirmedInNPrevBlocks_spec [where b = blk2 and txindex = "CDiskTxPos 0 700"
      and nMaxDepth = 1 and ?d0.0 = "- 1"]
    IsConfirmedInNPrevBlocks_spec [where b = blk2 and txindex = "CDiskTxPos 0 8"
      and nMaxDepth = 3 and ?d0.0 = "- 1"]
    IsConfirmedInNPrevBlocks_spec [where b = blk2 and txindex = "CDiskTxPos 0 8"
      and nMaxDepth = 2 and ?d0.0 = "- 1"]
    IsConfirmedInNPrevBlocks_spec [where b = blk2 and txindex = "CDiskTxPos 1 8"
      and nMaxDepth = 10 and ?d0.0 = "- 1"]
  by (simp add: is_confirmed_within_def position_matches_def blk2_def blk1_def blk0_def)

end
